theory Spec2Isabelle
  imports Main
begin

text \<open>
  The token lifecycle of the authentication gateway secure-auth-poc: the token codec,
  the Redis revocation store, the refresh-token ledger, the access guard and the
  service that logs users in, rotates refresh tokens and revokes them.  Each function of
  the TypeScript sources is a function here that takes the state and the clock and
  returns the result, or the error thrown, and the new state.  Redis and the database
  are taken to be reachable; what they refuse (a duplicate key, a missing row, a
  time-to-live that is not positive) is an error of the model.
\<close>

section \<open>Values exchanged with the outside world\<close>

text \<open>
  Clock readings are whole numbers: \<open>Date.now()\<close> and \<open>Date\<close> values in milliseconds,
  JWT \<open>iat\<close>/\<open>exp\<close> claims and Redis time-to-live values in seconds.  One call of a
  service method reads the clock once (\<open>now\<close>).
\<close>

type_synonym millis = int
type_synonym seconds = int

text \<open>
  The libraries behind the code (jsonwebtoken, node:crypto, argon2) are modelled
  symbolically: a signed token is the bundle of its claims together with the key that
  signed it, a SHA-256 hex digest is a constructor applied to the digested text, and an
  Argon2 hash remembers the salt and the value it was computed from.  Distinct inputs
  therefore have distinct digests and signatures, and neither can be inverted by the code.
\<close>

record jwt =
  jwt_secret :: string
  jwt_iss :: string
  jwt_aud :: string
  jwt_userId :: string
  jwt_email :: "string option"
  jwt_tokenId :: "string option"
  jwt_iat :: "seconds option"
  jwt_exp :: "seconds option"
  jwt_jti :: "string option"

text \<open>The content of a JavaScript string that carries a token, a UUID or a digest.\<close>

datatype jsstring =
    Plain string
  | Signed jwt
  | Sha256Hex jsstring

text \<open>JavaScript truthiness of a string: only the empty string is falsy.\<close>

fun truthy_string :: "jsstring \<Rightarrow> bool" where
  "truthy_string (Plain s) = (s \<noteq> [])"
| "truthy_string (Signed j) = True"
| "truthy_string (Sha256Hex s) = True"

text \<open>A JavaScript number as far as the code can see one: a whole number or \<open>NaN\<close>.\<close>

datatype jsnum = NaN | Num int

fun truthy_num :: "jsnum \<Rightarrow> bool" where
  "truthy_num NaN = False"
| "truthy_num (Num n) = (n \<noteq> 0)"

text \<open>\<open>a < b\<close> on numbers: every comparison with \<open>NaN\<close> is false.\<close>

fun num_less :: "int \<Rightarrow> jsnum \<Rightarrow> bool" where
  "num_less a NaN = False"
| "num_less a (Num b) = (a < b)"

datatype pwhash = Argon2id string string | NotAHash string

datatype app_error =
    UnauthorizedError string
  | ConflictError string
  | BadRequestError string
  | Error string
  | PrismaKnownRequestError string
  | PrismaValidationError string
  | RedisErrorReply string

fun isUnauthorized :: "app_error + 'a \<Rightarrow> bool" where
  "isUnauthorized (Inl (UnauthorizedError m)) = True"
| "isUnauthorized r = False"

section \<open>Configuration (config/env.ts)\<close>

record env =
  JWT_ACCESS_SECRET :: string
  JWT_REFRESH_SECRET :: string
  JWT_ACCESS_EXPIRES_IN :: string
  JWT_REFRESH_EXPIRES_IN :: string
  REFRESH_GRACE_PERIOD_SECONDS :: int

text \<open>The defaults of the schema, with two signing keys of the required length.\<close>

definition default_env :: env where
  "default_env = \<lparr> JWT_ACCESS_SECRET = ''access-secret-access-secret-0123'',
                   JWT_REFRESH_SECRET = ''refresh-secret-refresh-secret-01'',
                   JWT_ACCESS_EXPIRES_IN = ''15m'',
                   JWT_REFRESH_EXPIRES_IN = ''7d'',
                   REFRESH_GRACE_PERIOD_SECONDS = 10 \<rparr>"

section \<open>Durations\<close>

definition is_digit :: "char \<Rightarrow> bool" where
  "is_digit c = (let n = (of_char c :: nat) in 48 \<le> n \<and> n \<le> 57)"

definition digit_value :: "char \<Rightarrow> int" where
  "digit_value c = int (of_char c) - 48"

text \<open>\<open>parseInt(s, 10)\<close> on a string of decimal digits.\<close>

definition parseInt_digits :: "string \<Rightarrow> int" where
  "parseInt_digits s = foldl (\<lambda>a c. 10 * a + digit_value c) 0 s"

text \<open>The match of \<open>/^(\d+)([dhm])$/\<close>: the digits and the unit letter.\<close>

definition match_duration :: "string \<Rightarrow> (string \<times> char) option" where
  "match_duration s =
     (if s = [] then None
      else if butlast s \<noteq> [] \<and> list_all is_digit (butlast s)
              \<and> (last s = CHR ''d'' \<or> last s = CHR ''h'' \<or> last s = CHR ''m'')
           then Some (butlast s, last s)
           else None)"

text \<open>
  A JavaScript \<open>Date\<close>.  \<open>new Date(t)\<close> is a date for a time value within 8.64e15 ms
  of the epoch and the Invalid Date beyond; it never throws.  A result within that range
  is below 2^53 at every step of the arithmetic that leads to it, so the arithmetic of
  the code, which is on doubles, is the arithmetic of whole numbers there.
\<close>

datatype jsdate = InvalidDate | Date millis

definition new_Date :: "int \<Rightarrow> jsdate" where
  "new_Date t =
     (if - 8640000000000000 \<le> t \<and> t \<le> 8640000000000000 then Date t else InvalidDate)"

text \<open>\<open>AuthService.calculateExpiration\<close> (auth.service.ts, lines 219-241).\<close>

definition calculateExpiration :: "millis \<Rightarrow> string \<Rightarrow> app_error + jsdate" where
  "calculateExpiration now duration =
     (case match_duration duration of
        None \<Rightarrow> Inl (Error ''Invalid duration format'')
      | Some (digits, unit) \<Rightarrow>
          (let v = parseInt_digits digits in
           if unit = CHR ''d'' then Inr (new_Date (now + v * 24 * 60 * 60 * 1000))
           else if unit = CHR ''h'' then Inr (new_Date (now + v * 60 * 60 * 1000))
           else if unit = CHR ''m'' then Inr (new_Date (now + v * 60 * 1000))
           else Inl (Error ''Invalid duration unit'')))"

text \<open>
  jsonwebtoken turns a string \<open>expiresIn\<close> into seconds with the \<open>ms\<close> package, which
  gives nothing for a string of more than 100 characters.  The model covers the
  spellings made of digits and one of the lower-case unit letters \<open>s\<close>, \<open>m\<close>, \<open>h\<close>,
  \<open>d\<close>, \<open>w\<close> whose value in milliseconds is a whole number that a double holds
  exactly.  On any other spelling the model's \<open>sign\<close> fails, also where the package
  accepts the spelling (\<open>1y\<close>, \<open>2 days\<close>, digits alone): the model signs only where
  the library signs, and then with the library's result.
\<close>

definition unit_seconds :: "char \<Rightarrow> int option" where
  "unit_seconds u =
     (if u = CHR ''s'' then Some 1
      else if u = CHR ''m'' then Some 60
      else if u = CHR ''h'' then Some (60 * 60)
      else if u = CHR ''d'' then Some (24 * 60 * 60)
      else if u = CHR ''w'' then Some (7 * 24 * 60 * 60)
      else None)"

definition timespan :: "string \<Rightarrow> seconds option" where
  "timespan s =
     (if s = [] \<or> 100 < length s then None
      else if butlast s \<noteq> [] \<and> list_all is_digit (butlast s) then
        (case unit_seconds (last s) of
           None \<Rightarrow> None
         | Some k \<Rightarrow>
             (let v = parseInt_digits (butlast s) in
              if v * k * 1000 \<le> 9007199254740991 then Some (v * k) else None))
      else None)"

section \<open>Identity store (user.repository.ts)\<close>

text \<open>
  \<open>UserRepository\<close> (src/unnamed/part_002): \<open>findByEmail\<close> lines 10-14,
  \<open>findById\<close> lines 16-20, \<open>create\<close> lines 22-30, \<open>updatePassword\<close> lines 32-37.
\<close>

text \<open>
  Modelled from the spec: the Prisma schema (prisma/schema.prisma) is not among the
  sources.  The rows carry the fields the code reads and writes, and the unique columns
  are the ones the code hands to \<open>findUnique\<close> and \<open>update\<close>: the id and the email of
  a user, the id and the token digest of a refresh-token row.  Ids are generated by the
  database; the model receives the generated id as an argument.  A lookup by a unique
  column finds the row that holds exactly the string asked for; what a collation of the
  database adds to that is not modelled.
\<close>

record user =
  u_id :: string
  u_email :: string
  u_password :: pwhash
  u_name :: string
  u_createdAt :: millis

text \<open>
  \<open>String.prototype.toLowerCase\<close>.  On a string of ASCII characters it maps each of
  the letters A to Z to its lower-case form and leaves every other character as it is.
  On a string with a character beyond ASCII the result follows the Unicode case mapping
  of the runtime, which the model does not describe: it is the argument \<open>lc\<close> of every
  function that lower-cases an email, and the theorems hold for every \<open>lc\<close>.
\<close>

definition upper_letters :: string where
  "upper_letters = ''ABCDEFGHIJKLMNOPQRSTUVWXYZ''"

definition lower_letters :: string where
  "lower_letters = ''abcdefghijklmnopqrstuvwxyz''"

definition lower_char :: "char \<Rightarrow> char" where
  "lower_char c =
     (case map_of (zip upper_letters lower_letters) c of
        None \<Rightarrow> c
      | Some l \<Rightarrow> l)"

definition is_ascii :: "char \<Rightarrow> bool" where
  "is_ascii c = ((of_char c :: nat) < 128)"

definition toLowerCase :: "(string \<Rightarrow> string) \<Rightarrow> string \<Rightarrow> string" where
  "toLowerCase lc s = (if list_all is_ascii s then map lower_char s else lc s)"

definition userRepository_findByEmail ::
  "(string \<Rightarrow> string) \<Rightarrow> user list \<Rightarrow> string \<Rightarrow> user option" where
  "userRepository_findByEmail lc us email = find (\<lambda>u. u_email u = toLowerCase lc email) us"




section \<open>Credential verifier (HashProvider.ts)\<close>


fun hashProvider_compare :: "string \<Rightarrow> pwhash \<Rightarrow> bool" where
  "hashProvider_compare v (Argon2id salt v') = (v = v')"
| "hashProvider_compare v (NotAHash h) = False"

section \<open>Refresh token ledger (refreshToken.repository.ts)\<close>

text \<open>
  \<open>RefreshTokenRepository\<close>: \<open>create\<close> lines 10-20, \<open>findByToken\<close> lines 25-32,
  \<open>revoke\<close> lines 37-45, \<open>setGracePeriod\<close> lines 50-60, \<open>revokeAllByUserId\<close> lines
  65-75, \<open>deleteExpired\<close> lines 80-88, \<open>hashToken\<close> lines 90-92.
\<close>

text \<open>
  Modelled from the spec: the row of the refresh-token table, whose Prisma model is not
  among the sources.  It has the fields of the specification's RefreshTokenRecord under
  the names the code uses for them.
\<close>

record refreshToken =
  rt_id :: string
  rt_token :: jsstring
  rt_userId :: string
  rt_expiresAt :: millis
  rt_revokedAt :: "millis option"
  rt_replacedBy :: "string option"
  rt_gracePeriodToken :: "jsstring option"
  rt_gracePeriodEnds :: "millis option"

definition hashToken :: "jsstring \<Rightarrow> jsstring" where
  "hashToken token = Sha256Hex token"

text \<open>
  Prisma validates the arguments of a query before it runs it and rejects an Invalid
  Date.  The date column is taken to hold every other date; a column with a narrower
  range rejects more.
\<close>

definition refreshTokenRepository_create ::
  "refreshToken list \<Rightarrow> string \<Rightarrow> string \<Rightarrow> jsstring \<Rightarrow> jsdate
     \<Rightarrow> app_error + (refreshToken \<times> refreshToken list)" where
  "refreshTokenRepository_create rts newId userId token expiresAt =
     (case expiresAt of
        InvalidDate \<Rightarrow> Inl (PrismaValidationError ''Provided Date object is invalid'')
      | Date expiry \<Rightarrow>
          (let tokenHash = hashToken token;
               row = \<lparr> rt_id = newId, rt_token = tokenHash, rt_userId = userId,
                       rt_expiresAt = expiry, rt_revokedAt = None, rt_replacedBy = None,
                       rt_gracePeriodToken = None, rt_gracePeriodEnds = None \<rparr> in
           if list_ex (\<lambda>r. rt_id r = newId \<or> rt_token r = tokenHash) rts
           then Inl (PrismaKnownRequestError ''P2002'')
           else Inr (row, rts @ [row])))"

text \<open>
  \<open>findByToken\<close> joins the owner (\<open>include: { user: true }\<close>).  A row whose owner is
  missing cannot exist under the relation; the model returns no row for it.
\<close>

definition refreshTokenRepository_findByToken ::
  "user list \<Rightarrow> refreshToken list \<Rightarrow> jsstring \<Rightarrow> (refreshToken \<times> user) option" where
  "refreshTokenRepository_findByToken us rts token =
     (case find (\<lambda>r. rt_token r = hashToken token) rts of
        None \<Rightarrow> None
      | Some r \<Rightarrow>
          (case find (\<lambda>u. u_id u = rt_userId r) us of
             None \<Rightarrow> None
           | Some u \<Rightarrow> Some (r, u)))"

text \<open>Prisma's \<open>update\<close> rejects with P2025 when no row has the id.\<close>

definition refreshTokenRepository_revoke ::
  "refreshToken list \<Rightarrow> string \<Rightarrow> string option \<Rightarrow> millis
     \<Rightarrow> app_error + (refreshToken \<times> refreshToken list)" where
  "refreshTokenRepository_revoke rts tokenId replacedBy now =
     (case find (\<lambda>r. rt_id r = tokenId) rts of
        None \<Rightarrow> Inl (PrismaKnownRequestError ''P2025'')
      | Some r \<Rightarrow>
          Inr (r\<lparr>rt_revokedAt := Some now, rt_replacedBy := replacedBy\<rparr>,
               map (\<lambda>x. if rt_id x = tokenId
                         then x\<lparr>rt_revokedAt := Some now, rt_replacedBy := replacedBy\<rparr>
                         else x) rts))"

definition refreshTokenRepository_setGracePeriod ::
  "refreshToken list \<Rightarrow> string \<Rightarrow> jsstring \<Rightarrow> int \<Rightarrow> millis
     \<Rightarrow> app_error + (refreshToken \<times> refreshToken list)" where
  "refreshTokenRepository_setGracePeriod rts tokenId newToken gracePeriodSeconds now =
     (case new_Date (now + gracePeriodSeconds * 1000) of
        InvalidDate \<Rightarrow> Inl (PrismaValidationError ''Provided Date object is invalid'')
      | Date gracePeriodEnds \<Rightarrow>
          (case find (\<lambda>r. rt_id r = tokenId) rts of
             None \<Rightarrow> Inl (PrismaKnownRequestError ''P2025'')
           | Some r \<Rightarrow>
               Inr (r\<lparr>rt_gracePeriodToken := Some (hashToken newToken),
                       rt_gracePeriodEnds := Some gracePeriodEnds\<rparr>,
                    map (\<lambda>x. if rt_id x = tokenId
                              then x\<lparr>rt_gracePeriodToken := Some (hashToken newToken),
                                      rt_gracePeriodEnds := Some gracePeriodEnds\<rparr>
                              else x) rts)))"

definition refreshTokenRepository_revokeAllByUserId ::
  "refreshToken list \<Rightarrow> string \<Rightarrow> millis \<Rightarrow> refreshToken list" where
  "refreshTokenRepository_revokeAllByUserId rts userId now =
     map (\<lambda>x. if rt_userId x = userId \<and> rt_revokedAt x = None
               then x\<lparr>rt_revokedAt := Some now\<rparr> else x) rts"

definition refreshTokenRepository_deleteExpired ::
  "refreshToken list \<Rightarrow> millis \<Rightarrow> refreshToken list" where
  "refreshTokenRepository_deleteExpired rts now = filter (\<lambda>r. \<not> rt_expiresAt r < now) rts"

section \<open>Token codec (TokenManager.ts)\<close>

text \<open>
  \<open>TokenManager\<close> (src/unnamed/part_006): \<open>generateAccessToken\<close> lines 18-27,
  \<open>generateRefreshToken\<close> lines 29-37, \<open>verifyAccessToken\<close> lines 39-50,
  \<open>verifyRefreshToken\<close> lines 52-63, \<open>getTokenExpiration\<close> lines 65-72.  The callers
  hand \<open>generateAccessToken\<close> a user id and an email, \<open>generateRefreshToken\<close> a user id
  and a token id.

  \<open>jwt.sign\<close> stamps \<open>iat\<close> with the clock in whole seconds and \<open>exp\<close> with \<open>iat\<close> plus
  the time span; \<open>jwt.verify\<close> checks the key, the expiry (\<open>exp\<close> reached means
  expired), the issuer and the audience; \<open>jwt.decode\<close> reads the claims of anything
  that is a token, whoever signed it.
\<close>

definition jwt_sign ::
  "millis \<Rightarrow> string \<Rightarrow> string \<Rightarrow> string \<Rightarrow> string \<Rightarrow> string option
     \<Rightarrow> string \<Rightarrow> string option \<Rightarrow> string option \<Rightarrow> app_error + jsstring" where
  \<open>jwt_sign now secret expiresIn issuer audience jwtid userId email tokenId =
     (case timespan expiresIn of
        None \<Rightarrow> Inl (Error ''"expiresIn" should be a number of seconds or string representing a timespan eg: "1d", "20h", 60'')
      | Some span \<Rightarrow>
          Inr (Signed \<lparr> jwt_secret = secret, jwt_iss = issuer, jwt_aud = audience,
                        jwt_userId = userId, jwt_email = email, jwt_tokenId = tokenId,
                        jwt_iat = Some (now div 1000),
                        jwt_exp = Some (now div 1000 + span),
                        jwt_jti = jwtid \<rparr>))\<close>

fun jwt_decode :: "jsstring \<Rightarrow> jwt option" where
  "jwt_decode (Signed j) = Some j"
| "jwt_decode (Plain s) = None"
| "jwt_decode (Sha256Hex s) = None"

definition jwt_expired :: "millis \<Rightarrow> jwt \<Rightarrow> bool" where
  "jwt_expired now j = (case jwt_exp j of None \<Rightarrow> False | Some e \<Rightarrow> e \<le> now div 1000)"

definition jwt_verify :: "millis \<Rightarrow> jsstring \<Rightarrow> string \<Rightarrow> string \<Rightarrow> string \<Rightarrow> jwt option" where
  "jwt_verify now token secret issuer audience =
     (case jwt_decode token of
        None \<Rightarrow> None
      | Some j \<Rightarrow>
          if jwt_secret j = secret \<and> \<not> jwt_expired now j
             \<and> jwt_iss j = issuer \<and> jwt_aud j = audience
          then Some j else None)"

definition tokenManager_generateAccessToken ::
  "env \<Rightarrow> millis \<Rightarrow> string \<Rightarrow> string \<Rightarrow> string \<Rightarrow> app_error + jsstring" where
  "tokenManager_generateAccessToken e now uuid userId email =
     jwt_sign now (JWT_ACCESS_SECRET e) (JWT_ACCESS_EXPIRES_IN e)
       ''secure-auth-poc'' ''api'' (Some uuid) userId (Some email) None"

definition tokenManager_generateRefreshToken ::
  "env \<Rightarrow> millis \<Rightarrow> string \<Rightarrow> string \<Rightarrow> app_error + jsstring" where
  "tokenManager_generateRefreshToken e now userId tokenId =
     jwt_sign now (JWT_REFRESH_SECRET e) (JWT_REFRESH_EXPIRES_IN e)
       ''secure-auth-poc'' ''refresh'' None userId None (Some tokenId)"

definition tokenManager_verifyAccessToken :: "env \<Rightarrow> millis \<Rightarrow> jsstring \<Rightarrow> app_error + jwt" where
  "tokenManager_verifyAccessToken e now token =
     (case jwt_verify now token (JWT_ACCESS_SECRET e) ''secure-auth-poc'' ''api'' of
        None \<Rightarrow> Inl (UnauthorizedError ''Invalid or expired access token'')
      | Some decoded \<Rightarrow> Inr decoded)"

definition tokenManager_verifyRefreshToken :: "env \<Rightarrow> millis \<Rightarrow> jsstring \<Rightarrow> app_error + jwt" where
  "tokenManager_verifyRefreshToken e now token =
     (case jwt_verify now token (JWT_REFRESH_SECRET e) ''secure-auth-poc'' ''refresh'' of
        None \<Rightarrow> Inl (UnauthorizedError ''Invalid or expired refresh token'')
      | Some decoded \<Rightarrow> Inr decoded)"

definition tokenManager_getTokenExpiration :: "jsstring \<Rightarrow> seconds option" where
  "tokenManager_getTokenExpiration token =
     (case jwt_decode token of None \<Rightarrow> None | Some decoded \<Rightarrow> jwt_exp decoded)"

section \<open>Revocation store (infra/redis.ts, TokenBlacklist.ts)\<close>

text \<open>
  \<open>TokenBlacklist\<close> in its revision with revocation timestamps
  (src/unnamed/part_008): \<open>add\<close> lines 12-32, \<open>isBlacklisted\<close> lines 39-44,
  \<open>revokeAllUserTokens\<close> lines 61-67, \<open>getUserRevocationTimestamp\<close> lines 74-79,
  \<open>getKey\<close> lines 91-95.

  The keys are \<open>blacklist:token:<digest>\<close> and \<open>blacklist:user:<userId>\<close>; the values
  the class writes are the literal \<open>revoked\<close> and the decimal rendering of a whole
  number.  Every entry carries the instant at which Redis drops it.  \<open>SETEX\<close> refuses a
  time-to-live that is not positive.
\<close>

datatype redis_key = TokenKey jsstring | UserKey string

datatype redis_value = Revoked | Stamp int

type_synonym redis = "redis_key \<Rightarrow> (redis_value \<times> millis) option"

definition redis_setEx ::
  "redis \<Rightarrow> millis \<Rightarrow> redis_key \<Rightarrow> seconds \<Rightarrow> redis_value \<Rightarrow> app_error + redis" where
  "redis_setEx store now key ttl v =
     (if ttl \<le> 0 then Inl (RedisErrorReply ''ERR invalid expire time in setex command'')
      else Inr (store(key \<mapsto> (v, now + ttl * 1000))))"

definition redis_get :: "redis \<Rightarrow> millis \<Rightarrow> redis_key \<Rightarrow> redis_value option" where
  "redis_get store now key =
     (case store key of
        None \<Rightarrow> None
      | Some (v, dropAt) \<Rightarrow> if now < dropAt then Some v else None)"

definition getKey :: "jsstring \<Rightarrow> redis_key" where
  "getKey token = TokenKey (Sha256Hex token)"

text \<open>\<open>!expirationTimestamp\<close> holds for \<open>null\<close> and for the number zero.\<close>

definition tokenBlacklist_add :: "redis \<Rightarrow> millis \<Rightarrow> jsstring \<Rightarrow> app_error + redis" where
  "tokenBlacklist_add store nowMs token =
     (case tokenManager_getTokenExpiration token of
        None \<Rightarrow> Inl (Error ''Invalid token: no expiration found'')
      | Some expirationTimestamp \<Rightarrow>
          if expirationTimestamp = 0 then Inl (Error ''Invalid token: no expiration found'')
          else
            (let now = nowMs div 1000;
                 ttl = max (expirationTimestamp - now) 0 in
             if ttl = 0 then Inr store
             else redis_setEx store nowMs (getKey token) ttl Revoked))"

definition tokenBlacklist_isBlacklisted :: "redis \<Rightarrow> millis \<Rightarrow> jsstring \<Rightarrow> bool" where
  "tokenBlacklist_isBlacklisted store now token =
     (redis_get store now (getKey token) = Some Revoked)"

definition tokenBlacklist_revokeAllUserTokens ::
  "redis \<Rightarrow> millis \<Rightarrow> string \<Rightarrow> seconds \<Rightarrow> app_error + redis" where
  "tokenBlacklist_revokeAllUserTokens store nowMs userId ttl =
     (let now = nowMs div 1000 in redis_setEx store nowMs (UserKey userId) ttl (Stamp now))"

text \<open>\<open>parseInt(result, 10)\<close>: the number for a decimal rendering, \<open>NaN\<close> for \<open>revoked\<close>.\<close>

definition tokenBlacklist_getUserRevocationTimestamp ::
  "redis \<Rightarrow> millis \<Rightarrow> string \<Rightarrow> jsnum option" where
  "tokenBlacklist_getUserRevocationTimestamp store now userId =
     (case redis_get store now (UserKey userId) of
        None \<Rightarrow> None
      | Some Revoked \<Rightarrow> Some NaN
      | Some (Stamp n) \<Rightarrow> Some (Num n))"

section \<open>Access guard (authGuard.ts)\<close>

text \<open>\<open>authGuard\<close>, lines 16-61 of shared/middlewares/authGuard.ts.\<close>

record req_user =
  ru_userId :: string
  ru_email :: "string option"

text \<open>
  The argument is the \<open>access_token\<close> cookie, if the request has one.  The result is the
  error handed to \<open>next\<close>, or the user attached to the request.
\<close>

definition authGuard :: "env \<Rightarrow> millis \<Rightarrow> redis \<Rightarrow> jsstring option \<Rightarrow> app_error + req_user" where
  "authGuard e now store cookie =
     (case cookie of
        None \<Rightarrow> Inl (UnauthorizedError ''Access token not found'')
      | Some accessToken \<Rightarrow>
          if \<not> truthy_string accessToken then Inl (UnauthorizedError ''Access token not found'')
          else
            (case tokenManager_verifyAccessToken e now accessToken of
               Inl err \<Rightarrow> Inl err
             | Inr payload \<Rightarrow>
                 if tokenBlacklist_isBlacklisted store now accessToken
                 then Inl (UnauthorizedError ''Token has been revoked'')
                 else
                   (let admitted = Inr \<lparr> ru_userId = jwt_userId payload,
                                          ru_email = jwt_email payload \<rparr> in
                    case tokenBlacklist_getUserRevocationTimestamp store now (jwt_userId payload) of
                      None \<Rightarrow> admitted
                    | Some revocationTimestamp \<Rightarrow>
                        if truthy_num revocationTimestamp then
                          (case jwt_iat payload of
                             None \<Rightarrow>
                               Inl (UnauthorizedError ''Token revocation check failed: missing iat'')
                           | Some iat \<Rightarrow>
                               if iat = 0 then
                                 Inl (UnauthorizedError ''Token revocation check failed: missing iat'')
                               else if num_less iat revocationTimestamp then
                                 Inl (UnauthorizedError ''Token has been revoked by user security event'')
                               else admitted)
                        else admitted)))"

section \<open>Token lifecycle engine (auth.service.ts)\<close>


record loginDTO =
  ld_email :: string
  ld_password :: string
  ld_rememberMe :: bool



record user_summary =
  us_id :: string
  us_email :: string
  us_name :: string

record login_result =
  lr_user :: user_summary
  lr_accessToken :: jsstring
  lr_refreshToken :: jsstring
  lr_rememberMe :: bool

record token_pair =
  tp_accessToken :: jsstring
  tp_refreshToken :: jsstring

text \<open>
  What one call draws from outside: the id the database gives the row it inserts, the
  result of \<open>crypto.randomUUID()\<close> in the service, the one inside
  \<open>generateAccessToken\<close>, and the salt of \<open>argon2.hash\<close>.
\<close>

record fresh =
  f_rowId :: string
  f_uuid :: string
  f_jti :: string
  f_salt :: string

text \<open>
  The state: both tables, the Redis store, and the callbacks handed to \<open>setTimeout\<close>
  that have not run yet (due time, id of the old row, id of the new row).
\<close>

record world =
  w_users :: "user list"
  w_refreshTokens :: "refreshToken list"
  w_redis :: redis
  w_timers :: "(millis \<times> string \<times> string) list"


definition authService_login ::
  "(string \<Rightarrow> string) \<Rightarrow> env \<Rightarrow> millis \<Rightarrow> fresh \<Rightarrow> world \<Rightarrow> loginDTO
     \<Rightarrow> (app_error + login_result) \<times> world" where
  "authService_login lc e now fr w d =
     (case userRepository_findByEmail lc (w_users w) (ld_email d) of
        None \<Rightarrow> (Inl (UnauthorizedError ''Invalid credentials''), w)
      | Some u \<Rightarrow>
          if \<not> hashProvider_compare (ld_password d) (u_password u)
          then (Inl (UnauthorizedError ''Invalid credentials''), w)
          else
            (case tokenManager_generateAccessToken e now (f_jti fr) (u_id u) (u_email u) of
               Inl err \<Rightarrow> (Inl err, w)
             | Inr accessToken \<Rightarrow>
                 (let refreshExpiresIn =
                        (if ld_rememberMe d then ''30d'' else JWT_REFRESH_EXPIRES_IN e) in
                  case calculateExpiration now refreshExpiresIn of
                    Inl err \<Rightarrow> (Inl err, w)
                  | Inr expiresAt \<Rightarrow>
                      (case refreshTokenRepository_create (w_refreshTokens w) (f_rowId fr)
                              (u_id u) (Plain (f_uuid fr)) expiresAt of
                         Inl err \<Rightarrow> (Inl err, w)
                       | Inr (refreshTokenRecord, rts) \<Rightarrow>
                           (case tokenManager_generateRefreshToken e now (u_id u)
                                   (rt_id refreshTokenRecord) of
                              Inl err \<Rightarrow> (Inl err, w\<lparr>w_refreshTokens := rts\<rparr>)
                            | Inr refreshToken \<Rightarrow>
                                (Inr \<lparr> lr_user = \<lparr> us_id = u_id u, us_email = u_email u,
                                                   us_name = u_name u \<rparr>,
                                       lr_accessToken = accessToken,
                                       lr_refreshToken = refreshToken,
                                       lr_rememberMe = ld_rememberMe d \<rparr>,
                                 w\<lparr>w_refreshTokens := rts\<rparr>))))))"

text \<open>The grace-period test: both fields truthy, and the end later than the clock.\<close>

definition gracePeriodActive :: "millis \<Rightarrow> refreshToken \<Rightarrow> jsstring option" where
  "gracePeriodActive now tokenRecord =
     (case rt_gracePeriodToken tokenRecord of
        None \<Rightarrow> None
      | Some gracePeriodToken \<Rightarrow>
          (case rt_gracePeriodEnds tokenRecord of
             None \<Rightarrow> None
           | Some gracePeriodEnds \<Rightarrow>
               if truthy_string gracePeriodToken \<and> now < gracePeriodEnds
               then Some gracePeriodToken else None))"

definition authService_refresh ::
  "env \<Rightarrow> millis \<Rightarrow> fresh \<Rightarrow> world \<Rightarrow> jsstring \<Rightarrow> (app_error + token_pair) \<times> world" where
  "authService_refresh e now fr w refreshToken =
     (case tokenManager_verifyRefreshToken e now refreshToken of
        Inl err \<Rightarrow> (Inl err, w)
      | Inr payload \<Rightarrow>
          (case refreshTokenRepository_findByToken (w_users w) (w_refreshTokens w) refreshToken of
             None \<Rightarrow> (Inl (UnauthorizedError ''Invalid refresh token''), w)
           | Some (tokenRecord, tuser) \<Rightarrow>
               if rt_revokedAt tokenRecord \<noteq> None then
                 (let w1 = w\<lparr>w_refreshTokens :=
                              refreshTokenRepository_revokeAllByUserId (w_refreshTokens w)
                                (jwt_userId payload) now\<rparr> in
                  case tokenBlacklist_revokeAllUserTokens (w_redis w1) now (jwt_userId payload) 3600 of
                    Inl err \<Rightarrow> (Inl err, w1)
                  | Inr store \<Rightarrow>
                      (Inl (UnauthorizedError ''Token reuse detected. All sessions revoked.''),
                       w1\<lparr>w_redis := store\<rparr>))
               else if rt_expiresAt tokenRecord < now then
                 (Inl (UnauthorizedError ''Refresh token expired''), w)
               else
                 (case gracePeriodActive now tokenRecord of
                    Some gracePeriodToken \<Rightarrow>
                      (case tokenManager_generateAccessToken e now (f_jti fr) (u_id tuser) (u_email tuser) of
                         Inl err \<Rightarrow> (Inl err, w)
                       | Inr gracePeriodAccessToken \<Rightarrow>
                           (Inr \<lparr> tp_accessToken = gracePeriodAccessToken,
                                  tp_refreshToken = gracePeriodToken \<rparr>, w))
                  | None \<Rightarrow>
                      (case tokenManager_generateAccessToken e now (f_jti fr) (u_id tuser) (u_email tuser) of
                         Inl err \<Rightarrow> (Inl err, w)
                       | Inr newAccessToken \<Rightarrow>
                           (case refreshTokenRepository_create (w_refreshTokens w) (f_rowId fr)
                                   (u_id tuser) (Plain (f_uuid fr))
                                   (new_Date (now + 7 * 24 * 60 * 60 * 1000)) of
                              Inl err \<Rightarrow> (Inl err, w)
                            | Inr (newRefreshTokenRecord, rts1) \<Rightarrow>
                                (let w1 = w\<lparr>w_refreshTokens := rts1\<rparr> in
                                 case tokenManager_generateRefreshToken e now (u_id tuser)
                                        (rt_id newRefreshTokenRecord) of
                                   Inl err \<Rightarrow> (Inl err, w1)
                                 | Inr newRefreshToken \<Rightarrow>
                                     (case refreshTokenRepository_setGracePeriod rts1
                                             (rt_id tokenRecord) newRefreshToken
                                             (REFRESH_GRACE_PERIOD_SECONDS e) now of
                                        Inl err \<Rightarrow> (Inl err, w1)
                                      | Inr (oldRecord, rts2) \<Rightarrow>
                                          (Inr \<lparr> tp_accessToken = newAccessToken,
                                                 tp_refreshToken = newRefreshToken \<rparr>,
                                           w1\<lparr>w_refreshTokens := rts2,
                                              w_timers := w_timers w1 @
                                                [(now + REFRESH_GRACE_PERIOD_SECONDS e * 1000,
                                                  rt_id tokenRecord,
                                                  rt_id newRefreshTokenRecord)]\<rparr>))))))))"


definition authService_logout ::
  "env \<Rightarrow> millis \<Rightarrow> world \<Rightarrow> jsstring \<Rightarrow> jsstring option \<Rightarrow> (app_error + unit) \<times> world" where
  "authService_logout e now w accessToken refreshToken =
     (case tokenBlacklist_add (w_redis w) now accessToken of
        Inl err \<Rightarrow> (Inl err, w)
      | Inr store \<Rightarrow>
          (let w1 = w\<lparr>w_redis := store\<rparr> in
           case refreshToken of
             None \<Rightarrow> (Inr (), w1)
           | Some rt \<Rightarrow>
               if \<not> truthy_string rt then (Inr (), w1)
               else
                 (case tokenManager_verifyRefreshToken e now rt of
                    Inl err \<Rightarrow> (Inr (), w1)
                  | Inr payload \<Rightarrow>
                      (case jwt_tokenId payload of
                         None \<Rightarrow> (Inr (), w1)
                       | Some tokenId \<Rightarrow>
                           (case refreshTokenRepository_revoke (w_refreshTokens w1) tokenId None now of
                              Inl err \<Rightarrow> (Inr (), w1)
                            | Inr (r, rts) \<Rightarrow> (Inr (), w1\<lparr>w_refreshTokens := rts\<rparr>))))))"


section \<open>The later revision of the engine\<close>

text \<open>
  The sources hold a second, later revision of \<open>AuthService\<close> (the second document of
  modules/user/user.routes.ts).  It differs from the first in three places.  \<open>login\<close>
  (lines 62-114) signs the refresh token first, with a random UUID as its \<open>tokenId\<close>, and
  hands the signed token to \<open>create\<close>.  \<open>refresh\<close> (lines 119-206) raises the revocation
  epoch for 5 seconds on reuse, signs the new refresh token before it creates the new
  row, keys that row by the new token, and ignores what \<open>setGracePeriod\<close> throws, in
  which case it sets no timer.  The callback of its timer (lines 191-197) ignores what
  \<open>revoke\<close> throws.  \<open>register\<close>, \<open>logout\<close> and \<open>updatePassword\<close> are as in the
  first revision, apart from logging.
\<close>

definition authService_login_rev2 ::
  "(string \<Rightarrow> string) \<Rightarrow> env \<Rightarrow> millis \<Rightarrow> fresh \<Rightarrow> world \<Rightarrow> loginDTO
     \<Rightarrow> (app_error + login_result) \<times> world" where
  "authService_login_rev2 lc e now fr w d =
     (case userRepository_findByEmail lc (w_users w) (ld_email d) of
        None \<Rightarrow> (Inl (UnauthorizedError ''Invalid credentials''), w)
      | Some u \<Rightarrow>
          if \<not> hashProvider_compare (ld_password d) (u_password u)
          then (Inl (UnauthorizedError ''Invalid credentials''), w)
          else
            (case tokenManager_generateAccessToken e now (f_jti fr) (u_id u) (u_email u) of
               Inl err \<Rightarrow> (Inl err, w)
             | Inr accessToken \<Rightarrow>
                 (let refreshExpiresIn =
                        (if ld_rememberMe d then ''30d'' else JWT_REFRESH_EXPIRES_IN e) in
                  case calculateExpiration now refreshExpiresIn of
                    Inl err \<Rightarrow> (Inl err, w)
                  | Inr expiresAt \<Rightarrow>
                      (case tokenManager_generateRefreshToken e now (u_id u) (f_uuid fr) of
                         Inl err \<Rightarrow> (Inl err, w)
                       | Inr refreshToken \<Rightarrow>
                           (case refreshTokenRepository_create (w_refreshTokens w) (f_rowId fr)
                                   (u_id u) refreshToken expiresAt of
                              Inl err \<Rightarrow> (Inl err, w)
                            | Inr (refreshTokenRecord, rts) \<Rightarrow>
                                (Inr \<lparr> lr_user = \<lparr> us_id = u_id u, us_email = u_email u,
                                                   us_name = u_name u \<rparr>,
                                       lr_accessToken = accessToken,
                                       lr_refreshToken = refreshToken,
                                       lr_rememberMe = ld_rememberMe d \<rparr>,
                                 w\<lparr>w_refreshTokens := rts\<rparr>))))))"

definition authService_refresh_rev2 ::
  "env \<Rightarrow> millis \<Rightarrow> fresh \<Rightarrow> world \<Rightarrow> jsstring \<Rightarrow> (app_error + token_pair) \<times> world" where
  "authService_refresh_rev2 e now fr w refreshToken =
     (case tokenManager_verifyRefreshToken e now refreshToken of
        Inl err \<Rightarrow> (Inl err, w)
      | Inr payload \<Rightarrow>
          (case refreshTokenRepository_findByToken (w_users w) (w_refreshTokens w) refreshToken of
             None \<Rightarrow> (Inl (UnauthorizedError ''Invalid refresh token''), w)
           | Some (tokenRecord, tuser) \<Rightarrow>
               if rt_revokedAt tokenRecord \<noteq> None then
                 (let w1 = w\<lparr>w_refreshTokens :=
                              refreshTokenRepository_revokeAllByUserId (w_refreshTokens w)
                                (jwt_userId payload) now\<rparr> in
                  case tokenBlacklist_revokeAllUserTokens (w_redis w1) now (jwt_userId payload) 5 of
                    Inl err \<Rightarrow> (Inl err, w1)
                  | Inr store \<Rightarrow>
                      (Inl (UnauthorizedError ''Token reuse detected. All sessions revoked.''),
                       w1\<lparr>w_redis := store\<rparr>))
               else if rt_expiresAt tokenRecord < now then
                 (Inl (UnauthorizedError ''Refresh token expired''), w)
               else
                 (case gracePeriodActive now tokenRecord of
                    Some gracePeriodToken \<Rightarrow>
                      (case tokenManager_generateAccessToken e now (f_jti fr) (u_id tuser) (u_email tuser) of
                         Inl err \<Rightarrow> (Inl err, w)
                       | Inr gracePeriodAccessToken \<Rightarrow>
                           (Inr \<lparr> tp_accessToken = gracePeriodAccessToken,
                                  tp_refreshToken = gracePeriodToken \<rparr>, w))
                  | None \<Rightarrow>
                      (case tokenManager_generateAccessToken e now (f_jti fr) (u_id tuser) (u_email tuser) of
                         Inl err \<Rightarrow> (Inl err, w)
                       | Inr newAccessToken \<Rightarrow>
                           (case tokenManager_generateRefreshToken e now (u_id tuser) (f_uuid fr) of
                              Inl err \<Rightarrow> (Inl err, w)
                            | Inr newRefreshToken \<Rightarrow>
                                (case refreshTokenRepository_create (w_refreshTokens w) (f_rowId fr)
                                        (u_id tuser) newRefreshToken
                                        (new_Date (now + 7 * 24 * 60 * 60 * 1000)) of
                                   Inl err \<Rightarrow> (Inl err, w)
                                 | Inr (newTokenRecord, rts1) \<Rightarrow>
                                     (let w1 = w\<lparr>w_refreshTokens := rts1\<rparr>;
                                          tokens = \<lparr> tp_accessToken = newAccessToken,
                                                     tp_refreshToken = newRefreshToken \<rparr> in
                                      case refreshTokenRepository_setGracePeriod rts1
                                             (rt_id tokenRecord) newRefreshToken
                                             (REFRESH_GRACE_PERIOD_SECONDS e) now of
                                        Inl err \<Rightarrow> (Inr tokens, w1)
                                      | Inr (oldRecord, rts2) \<Rightarrow>
                                          (Inr tokens,
                                           w1\<lparr>w_refreshTokens := rts2,
                                              w_timers := w_timers w1 @
                                                [(now + REFRESH_GRACE_PERIOD_SECONDS e * 1000,
                                                  rt_id tokenRecord,
                                                  rt_id newTokenRecord)]\<rparr>))))))))"


section \<open>Sequences of ledger operations\<close>

text \<open>
  The operations of the ledger that a caller can issue, and their effect on the table.
  \<open>findByToken\<close> is a query and leaves the table as it is; an operation that is
  rejected leaves the table as it is, too.
\<close>

datatype ledger_op =
    Create string string jsstring jsdate
  | FindByToken jsstring
  | Revoke string "string option"
  | SetGracePeriod string jsstring int
  | RevokeAllByUserId string

fun ledger_step :: "millis \<Rightarrow> refreshToken list \<Rightarrow> ledger_op \<Rightarrow> refreshToken list" where
  "ledger_step now rts (Create newId userId token expiresAt) =
     (case refreshTokenRepository_create rts newId userId token expiresAt of
        Inl err \<Rightarrow> rts | Inr (r, rts') \<Rightarrow> rts')"
| "ledger_step now rts (FindByToken token) = rts"
| "ledger_step now rts (Revoke tokenId replacedBy) =
     (case refreshTokenRepository_revoke rts tokenId replacedBy now of
        Inl err \<Rightarrow> rts | Inr (r, rts') \<Rightarrow> rts')"
| "ledger_step now rts (SetGracePeriod tokenId newToken gracePeriodSeconds) =
     (case refreshTokenRepository_setGracePeriod rts tokenId newToken gracePeriodSeconds now of
        Inl err \<Rightarrow> rts | Inr (r, rts') \<Rightarrow> rts')"
| "ledger_step now rts (RevokeAllByUserId userId) =
     refreshTokenRepository_revokeAllByUserId rts userId now"

fun ledger_run :: "refreshToken list \<Rightarrow> (millis \<times> ledger_op) list \<Rightarrow> refreshToken list" where
  "ledger_run rts [] = rts"
| "ledger_run rts ((now, op) # ops) = ledger_run (ledger_step now rts op) ops"

text \<open>Row \<open>i\<close> of the table exists, has the id \<open>rid\<close> and is revoked.\<close>

definition revoked_at :: "refreshToken list \<Rightarrow> nat \<Rightarrow> string \<Rightarrow> bool" where
  "revoked_at rts i rid =
     (i < length rts \<and> rt_id (rts ! i) = rid \<and> rt_revokedAt (rts ! i) \<noteq> None)"

section \<open>Letter case, in the words of the specification\<close>





section \<open>Ledgers that only the first revision has written\<close>

text \<open>
  The first revision creates every ledger row with the digest of a random UUID.  A
  token, UUID or digest of that shape:
\<close>

fun uuid_digest :: "jsstring \<Rightarrow> bool" where
  "uuid_digest (Sha256Hex (Plain s)) = True"
| "uuid_digest t = False"

definition uuid_keyed :: "refreshToken list \<Rightarrow> bool" where
  "uuid_keyed rts = list_all (\<lambda>r. uuid_digest (rt_token r)) rts"

section \<open>Sample data\<close>

text \<open>
  The emails of the samples are ASCII, so the lower-casing of the runtime beyond ASCII is
  never consulted; the samples pass the identity for it.
\<close>

definition no_unicode :: "string \<Rightarrow> string" where
  "no_unicode s = s"

definition alice :: user where
  "alice = \<lparr> u_id = ''u1'', u_email = ''a@x.com'', u_password = Argon2id ''s0'' ''P@ssw0rd1'',
             u_name = ''Alice'', u_createdAt = 1700000000000 \<rparr>"

definition world0 :: world where
  "world0 = \<lparr> w_users = [alice], w_refreshTokens = [], w_redis = Map.empty, w_timers = [] \<rparr>"

definition fresh1 :: fresh where
  "fresh1 = \<lparr> f_rowId = ''rt-1'', f_uuid = ''uuid-1'', f_jti = ''jti-1'', f_salt = ''s1'' \<rparr>"

definition fresh2 :: fresh where
  "fresh2 = \<lparr> f_rowId = ''rt-2'', f_uuid = ''uuid-2'', f_jti = ''jti-2'', f_salt = ''s2'' \<rparr>"

text \<open>The access token \<open>generateAccessToken\<close> mints for Alice at 1700000000000 ms.\<close>

definition alice_access :: jsstring where
  "alice_access =
     Signed \<lparr> jwt_secret = ''access-secret-access-secret-0123'', jwt_iss = ''secure-auth-poc'',
              jwt_aud = ''api'', jwt_userId = ''u1'', jwt_email = Some ''a@x.com'',
              jwt_tokenId = None, jwt_iat = Some 1700000000, jwt_exp = Some 1700000900,
              jwt_jti = Some ''jti-1'' \<rparr>"

text \<open>A ledger whose only row is revoked, and operations issued on it afterwards.\<close>

definition ledger1 :: "refreshToken list" where
  "ledger1 = [\<lparr> rt_id = ''rt-1'', rt_token = Sha256Hex (Plain ''uuid-1''), rt_userId = ''u1'',
                rt_expiresAt = 1700604800000, rt_revokedAt = Some 1700000050000,
                rt_replacedBy = None, rt_gracePeriodToken = None, rt_gracePeriodEnds = None \<rparr>]"

definition ops1 :: "(millis \<times> ledger_op) list" where
  "ops1 = [(1700000060000, SetGracePeriod ''rt-1'' (Plain ''x'') 10),
           (1700000061000, Create ''rt-2'' ''u1'' (Plain ''uuid-2'') (Date 1700604800000)),
           (1700000062000, FindByToken (Plain ''uuid-1'')),
           (1700000063000, RevokeAllByUserId ''u1''),
           (1700000064000, Revoke ''rt-1'' None)]"

text \<open>A store whose only entry is a revocation epoch for Alice, live until 1700003700000 ms.\<close>

definition epoch_store :: "int \<Rightarrow> redis" where
  "epoch_store ts = Map.empty(UserKey ''u1'' \<mapsto> (Stamp ts, 1700003700000))"



text \<open>
  The refresh token \<open>generateRefreshToken\<close> mints for Alice and row \<open>rt-1\<close> during second
  1700000000, and a system in which the ledger row of Alice's session is keyed by the
  digest of that token.
\<close>

definition alice_refresh :: jsstring where
  "alice_refresh =
     Signed \<lparr> jwt_secret = ''refresh-secret-refresh-secret-01'', jwt_iss = ''secure-auth-poc'',
              jwt_aud = ''refresh'', jwt_userId = ''u1'', jwt_email = None,
              jwt_tokenId = Some ''rt-1'', jwt_iat = Some 1700000000, jwt_exp = Some 1700604800,
              jwt_jti = None \<rparr>"

definition session_world :: world where
  "session_world =
     \<lparr> w_users = [alice],
       w_refreshTokens =
         [\<lparr> rt_id = ''rt-1'', rt_token = Sha256Hex alice_refresh, rt_userId = ''u1'',
             rt_expiresAt = 1700604800000, rt_revokedAt = None, rt_replacedBy = None,
             rt_gracePeriodToken = None, rt_gracePeriodEnds = None \<rparr>],
       w_redis = Map.empty, w_timers = [] \<rparr>"


definition login_dto :: "bool \<Rightarrow> loginDTO" where
  "login_dto rm = \<lparr> ld_email = ''a@x.com'', ld_password = ''P@ssw0rd1'', ld_rememberMe = rm \<rparr>"

definition fresh3 :: fresh where
  "fresh3 = \<lparr> f_rowId = ''rt-3'', f_uuid = ''uuid-3'', f_jti = ''jti-3'', f_salt = ''s3'' \<rparr>"

text \<open>
  The refresh token a rotation mints for Alice and row \<open>rt-2\<close> during second 1700000100.
\<close>

definition alice_refresh2 :: jsstring where
  "alice_refresh2 =
     Signed \<lparr> jwt_secret = ''refresh-secret-refresh-secret-01'', jwt_iss = ''secure-auth-poc'',
              jwt_aud = ''refresh'', jwt_userId = ''u1'', jwt_email = None,
              jwt_tokenId = Some ''rt-2'', jwt_iat = Some 1700000100, jwt_exp = Some 1700604900,
              jwt_jti = None \<rparr>"

text \<open>The system after Alice's session token has been rotated 100 seconds into its life.\<close>

definition rotated_world :: world where
  "rotated_world =
     snd (authService_refresh default_env 1700000100000 fresh2 session_world alice_refresh)"

text \<open>
  A run of the later revision: Alice logs in during second 1700000000 and receives
  \<open>rev2_refresh\<close>; 100 seconds later she presents it and the engine rotates it, the
  timer for the old row \<open>rt-1\<close> being due at 1700000110000 ms; three seconds after the
  rotation she changes her password.
\<close>

definition rev2_refresh :: jsstring where
  "rev2_refresh =
     Signed \<lparr> jwt_secret = ''refresh-secret-refresh-secret-01'', jwt_iss = ''secure-auth-poc'',
              jwt_aud = ''refresh'', jwt_userId = ''u1'', jwt_email = None,
              jwt_tokenId = Some ''uuid-1'', jwt_iat = Some 1700000000,
              jwt_exp = Some 1700604800, jwt_jti = None \<rparr>"

definition rev2_refresh2 :: jsstring where
  "rev2_refresh2 =
     Signed \<lparr> jwt_secret = ''refresh-secret-refresh-secret-01'', jwt_iss = ''secure-auth-poc'',
              jwt_aud = ''refresh'', jwt_userId = ''u1'', jwt_email = None,
              jwt_tokenId = Some ''uuid-2'', jwt_iat = Some 1700000100,
              jwt_exp = Some 1700604900, jwt_jti = None \<rparr>"

definition rev2_session :: world where
  "rev2_session =
     snd (authService_login_rev2 no_unicode default_env 1700000000000 fresh1 world0
            (login_dto False))"

definition rev2_rotated :: world where
  "rev2_rotated =
     snd (authService_refresh_rev2 default_env 1700000100000 fresh2 rev2_session rev2_refresh)"


text \<open>A token, signed by anyone, whose \<open>exp\<close> claim is 0: it expired with the year 1970.\<close>

definition expired_1970 :: jsstring where
  "expired_1970 =
     Signed \<lparr> jwt_secret = ''anyone'', jwt_iss = ''secure-auth-poc'', jwt_aud = ''api'',
              jwt_userId = ''u1'', jwt_email = Some ''a@x.com'', jwt_tokenId = None,
              jwt_iat = None, jwt_exp = Some 0, jwt_jti = None \<rparr>"


section \<open>Auxiliary facts\<close>


lemma find_append_none:
  "find P xs = None \<Longrightarrow> \<not> P x \<Longrightarrow> find P (xs @ [x]) = None"
  by (induction xs) (auto split: if_splits)


lemma find_none_list_all:
  "find P xs = None \<longleftrightarrow> list_all (\<lambda>x. \<not> P x) xs"
  by (induction xs) auto

subsection \<open>Durations and dates\<close>

lemma match_duration_unit:
  "match_duration s = Some (ds, u) \<Longrightarrow> u = CHR ''d'' \<or> u = CHR ''h'' \<or> u = CHR ''m''"
  by (auto simp: match_duration_def split: if_splits)

lemma calculateExpiration_30d:
  "calculateExpiration now ''30d'' = Inr (new_Date (now + 2592000000))"
  by (simp add: calculateExpiration_def match_duration_def is_digit_def parseInt_digits_def
        digit_value_def)

lemma calculateExpiration_Date:
  "calculateExpiration now s = Inr (Date x) \<Longrightarrow>
     - 8640000000000000 \<le> x \<and> x \<le> 8640000000000000"
  by (auto simp: calculateExpiration_def new_Date_def Let_def
        split: option.splits if_splits)

subsection \<open>Lower-casing\<close>


















subsection \<open>Tokens, ledger and store\<close>

lemma verified_token_is_signed:
  "tokenManager_verifyAccessToken e now tok = Inr p \<Longrightarrow> tok = Signed p"
  by (cases tok)
     (auto simp: tokenManager_verifyAccessToken_def jwt_verify_def split: option.splits if_splits)

lemma verified_refresh_token_is_signed:
  "tokenManager_verifyRefreshToken e now tok = Inr p \<Longrightarrow> tok = Signed p"
  by (cases tok)
     (auto simp: tokenManager_verifyRefreshToken_def jwt_verify_def split: option.splits if_splits)

lemma ledger_step_keeps_revoked:
  "revoked_at rts i rid \<Longrightarrow> revoked_at (ledger_step now rts op) i rid"
  by (cases op)
     (auto simp: revoked_at_def refreshTokenRepository_create_def
        refreshTokenRepository_revoke_def refreshTokenRepository_setGracePeriod_def
        refreshTokenRepository_revokeAllByUserId_def Let_def nth_append
        split: option.splits if_splits jsdate.splits)

lemma ledger_run_keeps_revoked:
  "revoked_at rts i rid \<Longrightarrow> revoked_at (ledger_run rts ops) i rid"
  by (induction ops arbitrary: rts) (auto simp: ledger_step_keeps_revoked)

lemma alice_access_verifies:
  "tokenManager_verifyAccessToken default_env 1700000200000 alice_access
     = Inr \<lparr> jwt_secret = ''access-secret-access-secret-0123'', jwt_iss = ''secure-auth-poc'',
             jwt_aud = ''api'', jwt_userId = ''u1'', jwt_email = Some ''a@x.com'',
             jwt_tokenId = None, jwt_iat = Some 1700000000, jwt_exp = Some 1700000900,
             jwt_jti = Some ''jti-1'' \<rparr>"
  by (simp add: tokenManager_verifyAccessToken_def jwt_verify_def jwt_expired_def
        alice_access_def default_env_def)





lemma login_success_shape:
  assumes "authService_login lc e now fr w d = (Inr res, w')"
  shows "\<exists>j row. lr_refreshToken res = Signed j
               \<and> w_refreshTokens w' = w_refreshTokens w @ [row]
               \<and> rt_token row = Sha256Hex (Plain (f_uuid fr))
               \<and> w_users w' = w_users w \<and> w_timers w' = w_timers w"
  using assms
  by (auto simp: authService_login_def tokenManager_generateRefreshToken_def jwt_sign_def
        refreshTokenRepository_create_def hashToken_def Let_def
        split: option.splits if_splits sum.splits jsdate.splits)

lemma tokenBlacklist_add_future:
  assumes "tokenManager_getTokenExpiration token = Some e" and "e \<noteq> 0"
      and "0 < e - now div 1000"
  shows "tokenBlacklist_add store now token
           = Inr (store(getKey token \<mapsto> (Revoked, now + (e - now div 1000) * 1000)))"
    and "now \<le> t \<Longrightarrow> t < now + (e - now div 1000) * 1000 \<Longrightarrow>
           tokenBlacklist_isBlacklisted
             (store(getKey token \<mapsto> (Revoked, now + (e - now div 1000) * 1000))) t token"
  using assms
  by (simp_all add: tokenBlacklist_add_def redis_setEx_def tokenBlacklist_isBlacklisted_def
        redis_get_def Let_def)

lemma tokenBlacklist_add_expired:
  assumes "tokenManager_getTokenExpiration token = Some e" and "e \<noteq> 0"
      and "e \<le> now div 1000"
  shows "tokenBlacklist_add store now token = Inr store"
  using assms by (simp add: tokenBlacklist_add_def Let_def)

lemma revoke_missing_row:
  assumes "find (\<lambda>r. rt_id r = tokenId) rts = None"
  shows "refreshTokenRepository_revoke rts tokenId replacedBy now
           = Inl (PrismaKnownRequestError ''P2025'')"
  using assms by (simp add: refreshTokenRepository_revoke_def)

lemma session_world_by_create:
  "refreshTokenRepository_create [] ''rt-1'' ''u1'' alice_refresh (Date 1700604800000)
     = Inr (hd (w_refreshTokens session_world), w_refreshTokens session_world)"
  by (simp add: refreshTokenRepository_create_def session_world_def hashToken_def Let_def)

lemma alice_refresh_by_generate:
  "tokenManager_generateRefreshToken default_env 1700000000000 ''u1'' ''rt-1'' = Inr alice_refresh"
  by (simp add: tokenManager_generateRefreshToken_def jwt_sign_def default_env_def timespan_def
        unit_seconds_def is_digit_def parseInt_digits_def digit_value_def alice_refresh_def)

lemma login_rememberMe_expiries:
  assumes "authService_login lc e now fr w d = (Inr res, w')" and "ld_rememberMe d"
  shows "\<exists>span j. timespan (JWT_REFRESH_EXPIRES_IN e) = Some span
                  \<and> lr_refreshToken res = Signed j
                  \<and> jwt_exp j = Some (now div 1000 + span)
                  \<and> rt_expiresAt (last (w_refreshTokens w')) = now + 2592000000"
  using assms
  by (auto simp: authService_login_def tokenManager_generateRefreshToken_def jwt_sign_def
        refreshTokenRepository_create_def calculateExpiration_30d new_Date_def Let_def
        split: option.splits if_splits sum.splits jsdate.splits)

lemma grace_branch_returns_stored_value:
  assumes "tokenManager_verifyRefreshToken e now tok = Inr payload"
      and "refreshTokenRepository_findByToken (w_users w) (w_refreshTokens w) tok = Some (r, u)"
      and "rt_revokedAt r = None" and "\<not> rt_expiresAt r < now"
      and "gracePeriodActive now r = Some g"
      and "authService_refresh e now fr w tok = (Inr pair, w')"
  shows "tp_refreshToken pair = g \<and> w' = w"
  using assms
  by (auto simp: authService_refresh_def split: sum.splits)

lemma setGracePeriod_stores_digest:
  assumes "refreshTokenRepository_setGracePeriod rts tokenId newToken secs now = Inr (r, rts')"
  shows "rt_gracePeriodToken r = Some (Sha256Hex newToken) \<and> Sha256Hex newToken \<noteq> newToken"
  using assms
  by (auto simp: refreshTokenRepository_setGracePeriod_def hashToken_def Let_def
        split: option.splits jsdate.splits)

subsection \<open>The first revision never rotates\<close>

text \<open>
  On a ledger whose rows are all keyed by the digest of a UUID, \<open>refresh\<close> of the first
  revision finds no row for any token that verifies: it fails, changes nothing and sets
  no timer.  \<open>login\<close> of the first revision keeps the ledger in that shape.
\<close>

lemma uuid_keyed_no_signed_row:
  "uuid_keyed rts \<Longrightarrow> find (\<lambda>r. rt_token r = Sha256Hex (Signed j)) rts = None"
  by (induction rts) (auto simp: uuid_keyed_def)

lemma refresh_never_rotates:
  assumes "uuid_keyed (w_refreshTokens w)"
  shows "\<exists>err. authService_refresh e now fr w tok = (Inl err, w)"
proof (cases "tokenManager_verifyRefreshToken e now tok")
  case (Inl err)
  then show ?thesis by (simp add: authService_refresh_def)
next
  case (Inr p)
  then have "tok = Signed p" by (rule verified_refresh_token_is_signed)
  with assms have "refreshTokenRepository_findByToken (w_users w) (w_refreshTokens w) tok = None"
    by (simp add: refreshTokenRepository_findByToken_def hashToken_def uuid_keyed_no_signed_row)
  with Inr show ?thesis by (simp add: authService_refresh_def)
qed

lemma login_keeps_uuid_keyed:
  assumes "uuid_keyed (w_refreshTokens w)"
  shows "uuid_keyed (w_refreshTokens (snd (authService_login lc e now fr w d)))"
  using assms
  by (auto simp: authService_login_def refreshTokenRepository_create_def hashToken_def
        uuid_keyed_def Let_def
        split: option.splits if_splits sum.splits jsdate.splits)

subsection \<open>The later revision reaches the grace window\<close>

lemma rev2_login_result:
  "fst (authService_login_rev2 no_unicode default_env 1700000000000 fresh1 world0 (login_dto False))
     = Inr \<lparr> lr_user = \<lparr> us_id = ''u1'', us_email = ''a@x.com'', us_name = ''Alice'' \<rparr>,
             lr_accessToken = alice_access, lr_refreshToken = rev2_refresh,
             lr_rememberMe = False \<rparr>"
  by (simp add: authService_login_rev2_def userRepository_findByEmail_def toLowerCase_def
        is_ascii_def lower_char_def upper_letters_def lower_letters_def
        tokenManager_generateAccessToken_def tokenManager_generateRefreshToken_def jwt_sign_def
        timespan_def unit_seconds_def is_digit_def parseInt_digits_def digit_value_def
        calculateExpiration_def match_duration_def new_Date_def
        refreshTokenRepository_create_def hashToken_def Let_def
        default_env_def world0_def alice_def fresh1_def rev2_refresh_def alice_access_def
        login_dto_def)

lemma rev2_session_value:
  "rev2_session =
     \<lparr> w_users = [alice],
       w_refreshTokens =
         [\<lparr> rt_id = ''rt-1'', rt_token = Sha256Hex rev2_refresh, rt_userId = ''u1'',
             rt_expiresAt = 1700604800000, rt_revokedAt = None, rt_replacedBy = None,
             rt_gracePeriodToken = None, rt_gracePeriodEnds = None \<rparr>],
       w_redis = Map.empty, w_timers = [] \<rparr>"
  by (simp add: rev2_session_def
        authService_login_rev2_def userRepository_findByEmail_def toLowerCase_def
        is_ascii_def lower_char_def upper_letters_def lower_letters_def
        tokenManager_generateAccessToken_def tokenManager_generateRefreshToken_def jwt_sign_def
        timespan_def unit_seconds_def is_digit_def parseInt_digits_def digit_value_def
        calculateExpiration_def match_duration_def new_Date_def
        refreshTokenRepository_create_def hashToken_def Let_def
        default_env_def world0_def alice_def fresh1_def rev2_refresh_def login_dto_def)

lemma rev2_rotated_value:
  "rev2_rotated =
     \<lparr> w_users = [alice],
       w_refreshTokens =
         [\<lparr> rt_id = ''rt-1'', rt_token = Sha256Hex rev2_refresh, rt_userId = ''u1'',
             rt_expiresAt = 1700604800000, rt_revokedAt = None, rt_replacedBy = None,
             rt_gracePeriodToken = Some (Sha256Hex rev2_refresh2),
             rt_gracePeriodEnds = Some 1700000110000 \<rparr>,
          \<lparr> rt_id = ''rt-2'', rt_token = Sha256Hex rev2_refresh2, rt_userId = ''u1'',
             rt_expiresAt = 1700604900000, rt_revokedAt = None, rt_replacedBy = None,
             rt_gracePeriodToken = None, rt_gracePeriodEnds = None \<rparr>],
       w_redis = Map.empty,
       w_timers = [(1700000110000, ''rt-1'', ''rt-2'')] \<rparr>"
  by (simp add: rev2_rotated_def rev2_session_value
        authService_refresh_rev2_def tokenManager_verifyRefreshToken_def jwt_verify_def
        jwt_expired_def refreshTokenRepository_findByToken_def hashToken_def gracePeriodActive_def
        tokenManager_generateAccessToken_def tokenManager_generateRefreshToken_def jwt_sign_def
        timespan_def unit_seconds_def is_digit_def parseInt_digits_def digit_value_def
        refreshTokenRepository_create_def refreshTokenRepository_setGracePeriod_def new_Date_def
        Let_def default_env_def alice_def rev2_refresh_def rev2_refresh2_def fresh2_def)

lemma rev2_grace_returns_digest:
  "map_sum id tp_refreshToken
     (fst (authService_refresh_rev2 default_env 1700000100000 fresh2 rev2_session rev2_refresh))
     = Inr rev2_refresh2
   \<and> map_sum id tp_refreshToken
       (fst (authService_refresh_rev2 default_env 1700000101000 fresh3 rev2_rotated rev2_refresh))
     = Inr (Sha256Hex rev2_refresh2)"
  by (simp add: rev2_rotated_value rev2_session_value
        authService_refresh_rev2_def tokenManager_verifyRefreshToken_def jwt_verify_def
        jwt_expired_def refreshTokenRepository_findByToken_def hashToken_def gracePeriodActive_def
        tokenManager_generateAccessToken_def tokenManager_generateRefreshToken_def jwt_sign_def
        timespan_def unit_seconds_def is_digit_def parseInt_digits_def digit_value_def
        refreshTokenRepository_create_def refreshTokenRepository_setGracePeriod_def new_Date_def
        Let_def default_env_def alice_def rev2_refresh_def rev2_refresh2_def fresh2_def fresh3_def)


subsection \<open>Registration, lookup and login\<close>




subsection \<open>Revocation of one row\<close>




section \<open>Properties\<close>

text \<open>
  C9.  A login that fails because the email is unknown and a login that fails because
  the password does not match end in the same error, \<open>Unauthorized\<close> with the message
  \<open>Invalid credentials\<close>; the caller cannot tell from the error which check failed.
\<close>

theorem login_failures_indistinguishable:
  assumes "userRepository_findByEmail lc1 (w_users w1) (ld_email d1) = None"
      and "userRepository_findByEmail lc2 (w_users w2) (ld_email d2) = Some u"
      and "\<not> hashProvider_compare (ld_password d2) (u_password u)"
  shows "fst (authService_login lc1 e1 now1 fr1 w1 d1) = Inl (UnauthorizedError ''Invalid credentials'')
       \<and> fst (authService_login lc2 e2 now2 fr2 w2 d2) = Inl (UnauthorizedError ''Invalid credentials'')
       \<and> fst (authService_login lc1 e1 now1 fr1 w1 d1) = fst (authService_login lc2 e2 now2 fr2 w2 d2)"
  using assms by (simp add: authService_login_def)

theorem login_failures_indistinguishable_witness:
  "userRepository_findByEmail no_unicode (w_users world0) ''nobody@x.com'' = None
   \<and> userRepository_findByEmail no_unicode (w_users world0) ''a@x.com'' = Some alice
   \<and> \<not> hashProvider_compare ''guess'' (u_password alice)
   \<and> fst (authService_login no_unicode default_env 1700000000000 fresh1 world0
             \<lparr> ld_email = ''nobody@x.com'', ld_password = ''P@ssw0rd1'', ld_rememberMe = False \<rparr>)
       = Inl (UnauthorizedError ''Invalid credentials'')
   \<and> fst (authService_login no_unicode default_env 1700000000000 fresh1 world0
             \<lparr> ld_email = ''a@x.com'', ld_password = ''guess'', ld_rememberMe = False \<rparr>)
       = Inl (UnauthorizedError ''Invalid credentials'')"
proof -
  have a: "userRepository_findByEmail no_unicode (w_users world0)
             (ld_email \<lparr> ld_email = ''nobody@x.com'', ld_password = ''P@ssw0rd1'',
                         ld_rememberMe = False \<rparr>) = None"
    by (simp add: userRepository_findByEmail_def world0_def alice_def toLowerCase_def
          is_ascii_def lower_char_def upper_letters_def lower_letters_def)
  have b: "userRepository_findByEmail no_unicode (w_users world0)
             (ld_email \<lparr> ld_email = ''a@x.com'', ld_password = ''guess'',
                         ld_rememberMe = False \<rparr>) = Some alice"
    by (simp add: userRepository_findByEmail_def world0_def alice_def toLowerCase_def
          is_ascii_def lower_char_def upper_letters_def lower_letters_def)
  have c: "\<not> hashProvider_compare
               (ld_password \<lparr> ld_email = ''a@x.com'', ld_password = ''guess'',
                              ld_rememberMe = False \<rparr>)
               (u_password alice)"
    by (simp add: alice_def)
  from login_failures_indistinguishable
         [OF a b c, of default_env 1700000000000 fresh1 default_env 1700000000000 fresh1] a b c
  show ?thesis by simp
qed

text \<open>
  C8.  A ledger row that is revoked stays revoked: whatever sequence of \<open>create\<close>,
  \<open>findByToken\<close>, \<open>revoke\<close>, \<open>setGracePeriod\<close> and \<open>revokeAllByUserId\<close> runs on the
  table, at whatever times, the row is still there under the same id and its
  \<open>revokedAt\<close> is still set.
\<close>

theorem revoked_record_stays_revoked:
  assumes "i < length rts"
      and "rt_revokedAt (rts ! i) \<noteq> None"
  shows "i < length (ledger_run rts ops)
       \<and> rt_id (ledger_run rts ops ! i) = rt_id (rts ! i)
       \<and> rt_revokedAt (ledger_run rts ops ! i) \<noteq> None"
proof -
  from assms have "revoked_at rts i (rt_id (rts ! i))"
    by (simp add: revoked_at_def)
  then have "revoked_at (ledger_run rts ops) i (rt_id (rts ! i))"
    by (rule ledger_run_keeps_revoked)
  then show ?thesis
    by (simp add: revoked_at_def)
qed

theorem revoked_record_stays_revoked_witness:
  "0 < length ledger1 \<and> rt_revokedAt (ledger1 ! 0) \<noteq> None
   \<and> 0 < length (ledger_run ledger1 ops1)
   \<and> rt_id (ledger_run ledger1 ops1 ! 0) = ''rt-1''
   \<and> rt_revokedAt (ledger_run ledger1 ops1 ! 0) \<noteq> None"
proof -
  have a: "0 < length ledger1" by (simp add: ledger1_def)
  have b: "rt_revokedAt (ledger1 ! 0) \<noteq> None" by (simp add: ledger1_def)
  have c: "rt_id (ledger1 ! 0) = ''rt-1''" by (simp add: ledger1_def)
  from revoked_record_stays_revoked [OF a b, of ops1] a b c show ?thesis by simp
qed

text \<open>
  C4.  For a request whose access token passes verification and is not blacklisted:
  with no revocation epoch stored for the token's user the guard admits the request and
  attaches the user id and email of the token; with an epoch stored (a timestamp after
  the first second of 1970, which is what \<open>revokeAllUserTokens\<close> writes) the guard
  rejects with \<open>Unauthorized\<close> exactly when the token has no \<open>iat\<close> or its \<open>iat\<close> is
  earlier than the epoch, and otherwise admits the request with the same attachment.
\<close>

theorem authGuard_revocation_epoch:
  assumes "tokenManager_verifyAccessToken e now tok = Inr p"
      and "\<not> tokenBlacklist_isBlacklisted store now tok"
  shows "(tokenBlacklist_getUserRevocationTimestamp store now (jwt_userId p) = None \<longrightarrow>
            authGuard e now store (Some tok)
              = Inr \<lparr> ru_userId = jwt_userId p, ru_email = jwt_email p \<rparr>)
       \<and> (\<forall>ts. tokenBlacklist_getUserRevocationTimestamp store now (jwt_userId p) = Some (Num ts)
                 \<and> 0 < ts \<longrightarrow>
            (if jwt_iat p = None \<or> (\<exists>iat. jwt_iat p = Some iat \<and> iat < ts)
             then isUnauthorized (authGuard e now store (Some tok))
             else authGuard e now store (Some tok)
                    = Inr \<lparr> ru_userId = jwt_userId p, ru_email = jwt_email p \<rparr>))"
proof -
  from assms(1) have tok: "tok = Signed p"
    by (rule verified_token_is_signed)
  show ?thesis
    using assms
    by (auto simp: authGuard_def tok Let_def split: option.splits jsnum.splits)
qed

theorem authGuard_revocation_epoch_witness:
  "isUnauthorized (tokenManager_verifyAccessToken default_env 1700000200000 alice_access) = False
   \<and> \<not> tokenBlacklist_isBlacklisted (epoch_store 1700000100) 1700000200000 alice_access
   \<and> authGuard default_env 1700000200000 Map.empty (Some alice_access)
       = Inr \<lparr> ru_userId = ''u1'', ru_email = Some ''a@x.com'' \<rparr>
   \<and> isUnauthorized (authGuard default_env 1700000200000 (epoch_store 1700000100) (Some alice_access))
   \<and> authGuard default_env 1700000200000 (epoch_store 1700000000) (Some alice_access)
       = Inr \<lparr> ru_userId = ''u1'', ru_email = Some ''a@x.com'' \<rparr>"
proof -
  note v = alice_access_verifies
  have nb: "\<not> tokenBlacklist_isBlacklisted (epoch_store ts) 1700000200000 alice_access" for ts
    by (simp add: tokenBlacklist_isBlacklisted_def redis_get_def epoch_store_def getKey_def)
  have nb0: "\<not> tokenBlacklist_isBlacklisted Map.empty 1700000200000 alice_access"
    by (simp add: tokenBlacklist_isBlacklisted_def redis_get_def)
  have e0: "tokenBlacklist_getUserRevocationTimestamp Map.empty 1700000200000 ''u1'' = None"
    by (simp add: tokenBlacklist_getUserRevocationTimestamp_def redis_get_def)
  have e1: "tokenBlacklist_getUserRevocationTimestamp (epoch_store ts) 1700000200000 ''u1''
              = Some (Num ts)" for ts
    by (simp add: tokenBlacklist_getUserRevocationTimestamp_def redis_get_def epoch_store_def)
  from authGuard_revocation_epoch [OF v nb0] e0
  have 1: "authGuard default_env 1700000200000 Map.empty (Some alice_access)
             = Inr \<lparr> ru_userId = ''u1'', ru_email = Some ''a@x.com'' \<rparr>"
    by simp
  from authGuard_revocation_epoch [OF v nb, of 1700000100] e1 [of 1700000100]
  have 2: "isUnauthorized (authGuard default_env 1700000200000 (epoch_store 1700000100)
                             (Some alice_access))"
    by simp
  from authGuard_revocation_epoch [OF v nb, of 1700000000] e1 [of 1700000000]
  have 3: "authGuard default_env 1700000200000 (epoch_store 1700000000) (Some alice_access)
             = Inr \<lparr> ru_userId = ''u1'', ru_email = Some ''a@x.com'' \<rparr>"
    by simp
  from 1 2 3 nb [of 1700000100] v show ?thesis by simp
qed






text \<open>
  C1, what the code does.  \<open>login\<close> stores the digest of a random UUID in the ledger and
  returns a signed token that the ledger has never seen.  So after every successful
  \<open>login\<close> (on a ledger that did not already hold a row keyed by the digest of the token
  about to be returned), \<open>findByToken\<close> applied to the returned refresh token finds no
  row, and \<open>refresh\<close> with that token fails with \<open>Unauthorized\<close>.
\<close>

theorem login_token_not_in_ledger:
  assumes ok: "authService_login lc e now fr w d = (Inr res, w')"
      and new: "find (\<lambda>r. rt_token r = hashToken (lr_refreshToken res)) (w_refreshTokens w) = None"
  shows "refreshTokenRepository_findByToken (w_users w') (w_refreshTokens w') (lr_refreshToken res)
           = None
       \<and> fst (authService_refresh e now' fr' w' (lr_refreshToken res))
           = (if isUnauthorized (tokenManager_verifyRefreshToken e now' (lr_refreshToken res))
              then Inl (UnauthorizedError ''Invalid or expired refresh token'')
              else Inl (UnauthorizedError ''Invalid refresh token''))"
proof -
  from login_success_shape [OF ok] obtain j row where
    s: "lr_refreshToken res = Signed j" "w_refreshTokens w' = w_refreshTokens w @ [row]"
       "rt_token row = Sha256Hex (Plain (f_uuid fr))"
    by blast
  have "find (\<lambda>r. rt_token r = hashToken (lr_refreshToken res)) (w_refreshTokens w') = None"
    using new s by (simp add: find_append_none hashToken_def)
  then have nf: "refreshTokenRepository_findByToken (w_users w') (w_refreshTokens w')
                   (lr_refreshToken res) = None"
    by (simp add: refreshTokenRepository_findByToken_def)
  then show ?thesis
    by (auto simp: authService_refresh_def tokenManager_verifyRefreshToken_def
          split: option.splits sum.splits)
qed

theorem login_token_not_in_ledger_witness:
  "fst (authService_login no_unicode default_env 1700000000000 fresh1 world0 (login_dto False))
     = Inr \<lparr> lr_user = \<lparr> us_id = ''u1'', us_email = ''a@x.com'', us_name = ''Alice'' \<rparr>,
             lr_accessToken = alice_access, lr_refreshToken = alice_refresh,
             lr_rememberMe = False \<rparr>
   \<and> map rt_token (w_refreshTokens (snd (authService_login no_unicode default_env 1700000000000 fresh1 world0
                                          (login_dto False))))
     = [Sha256Hex (Plain ''uuid-1'')]
   \<and> refreshTokenRepository_findByToken [alice]
        (w_refreshTokens (snd (authService_login no_unicode default_env 1700000000000 fresh1 world0
                                 (login_dto False))))
        alice_refresh = None
   \<and> fst (authService_refresh default_env 1700000001000 fresh2
            (snd (authService_login no_unicode default_env 1700000000000 fresh1 world0 (login_dto False)))
            alice_refresh)
     = Inl (UnauthorizedError ''Invalid refresh token'')"
proof -
  let ?r = "authService_login no_unicode default_env 1700000000000 fresh1 world0 (login_dto False)"
  let ?res = "\<lparr> lr_user = \<lparr> us_id = ''u1'', us_email = ''a@x.com'', us_name = ''Alice'' \<rparr>,
                lr_accessToken = alice_access, lr_refreshToken = alice_refresh,
                lr_rememberMe = False \<rparr>"
  have f: "fst ?r = Inr ?res"
    and l: "map rt_token (w_refreshTokens (snd ?r)) = [Sha256Hex (Plain ''uuid-1'')]"
    and u: "w_users (snd ?r) = [alice]"
    by (simp_all add: authService_login_def userRepository_findByEmail_def toLowerCase_def
        is_ascii_def lower_char_def upper_letters_def lower_letters_def
        tokenManager_generateAccessToken_def tokenManager_generateRefreshToken_def
        jwt_sign_def timespan_def unit_seconds_def is_digit_def parseInt_digits_def digit_value_def
        calculateExpiration_def match_duration_def new_Date_def refreshTokenRepository_create_def hashToken_def
        Let_def default_env_def world0_def alice_def fresh1_def alice_refresh_def alice_access_def
        login_dto_def)
  from f have ok: "?r = (Inr ?res, snd ?r)"
    by (metis prod.collapse)
  have new: "find (\<lambda>r. rt_token r = hashToken (lr_refreshToken ?res)) (w_refreshTokens world0)
               = None"
    by (simp add: world0_def)
  have v: "\<not> isUnauthorized (tokenManager_verifyRefreshToken default_env 1700000001000
                               alice_refresh)"
    by (simp add: tokenManager_verifyRefreshToken_def jwt_verify_def jwt_expired_def
          default_env_def alice_refresh_def)
  from login_token_not_in_ledger [OF ok new, of 1700000001000 fresh2] f l u v
  show ?thesis by simp
qed

text \<open>
  C2, what the code does.  A rotation of Alice's token mints the refresh token
  \<open>alice_refresh2\<close> and stores its digest on the old row.  A second \<open>refresh\<close> with the
  old token one second later, inside the grace window, returns that stored digest as the
  refresh token: a string different from the token the rotation minted, and one that
  \<open>verifyRefreshToken\<close> rejects.
\<close>

theorem grace_period_returns_digest:
  "map_sum id tp_refreshToken
     (fst (authService_refresh default_env 1700000100000 fresh2 session_world alice_refresh))
     = Inr alice_refresh2
   \<and> map_sum id tp_refreshToken
       (fst (authService_refresh default_env 1700000101000 fresh3 rotated_world alice_refresh))
     = Inr (Sha256Hex alice_refresh2)
   \<and> Sha256Hex alice_refresh2 \<noteq> alice_refresh2
   \<and> tokenManager_verifyRefreshToken default_env 1700000102000 (Sha256Hex alice_refresh2)
     = Inl (UnauthorizedError ''Invalid or expired refresh token'')"
  by (simp add: rotated_world_def
        authService_refresh_def tokenManager_verifyRefreshToken_def jwt_verify_def
        jwt_expired_def refreshTokenRepository_findByToken_def hashToken_def gracePeriodActive_def
        tokenManager_generateAccessToken_def tokenManager_generateRefreshToken_def jwt_sign_def
        timespan_def unit_seconds_def is_digit_def parseInt_digits_def digit_value_def
        refreshTokenRepository_create_def refreshTokenRepository_setGracePeriod_def new_Date_def
        Let_def
        default_env_def session_world_def alice_def alice_refresh_def alice_refresh2_def
        fresh2_def fresh3_def)

text \<open>
  C5, what the code does.  For a token whose \<open>exp\<close> claim is 0, an expiry long past,
  \<open>TokenBlacklist.add\<close> does not return quietly: it throws
  \<open>Invalid token: no expiration found\<close>, and \<open>logout\<close> passes the error on.
\<close>

theorem blacklist_add_throws_on_exp_zero:
  "tokenManager_getTokenExpiration expired_1970 = Some 0
   \<and> tokenBlacklist_add Map.empty 1700000000000 expired_1970
     = Inl (Error ''Invalid token: no expiration found'')
   \<and> fst (authService_logout default_env 1700000000000 world0 expired_1970 None)
     = Inl (Error ''Invalid token: no expiration found'')"
  by (simp add: tokenManager_getTokenExpiration_def tokenBlacklist_add_def authService_logout_def
        expired_1970_def world0_def)

text \<open>
  C6, what the code does.  With the default configuration, a \<open>login\<close> with
  \<open>rememberMe\<close> set gives the ledger row an expiry 30 days after issuance but signs a
  refresh token that expires 7 days after issuance; on the eighth day \<open>refresh\<close> rejects
  the token as expired.
\<close>

theorem rememberMe_token_expires_after_7_days:
  "map_sum id lr_refreshToken
     (fst (authService_login no_unicode default_env 1700000000000 fresh1 world0 (login_dto True)))
     = Inr alice_refresh
   \<and> tokenManager_getTokenExpiration alice_refresh = Some (1700000000 + 7 * 24 * 60 * 60)
   \<and> map rt_expiresAt
       (w_refreshTokens (snd (authService_login no_unicode default_env 1700000000000 fresh1 world0
                                (login_dto True))))
     = [1700000000000 + 30 * 24 * 60 * 60 * 1000]
   \<and> fst (authService_refresh default_env (1700000000000 + 8 * 24 * 60 * 60 * 1000) fresh2
            (snd (authService_login no_unicode default_env 1700000000000 fresh1 world0 (login_dto True)))
            alice_refresh)
     = Inl (UnauthorizedError ''Invalid or expired refresh token'')"
  by (simp add: authService_login_def userRepository_findByEmail_def toLowerCase_def
        is_ascii_def lower_char_def upper_letters_def lower_letters_def
        tokenManager_generateAccessToken_def tokenManager_generateRefreshToken_def jwt_sign_def
        timespan_def unit_seconds_def is_digit_def parseInt_digits_def digit_value_def calculateExpiration_def
        match_duration_def new_Date_def refreshTokenRepository_create_def hashToken_def Let_def
        tokenManager_getTokenExpiration_def authService_refresh_def
        tokenManager_verifyRefreshToken_def jwt_verify_def jwt_expired_def
        default_env_def world0_def alice_def fresh1_def alice_refresh_def login_dto_def)




end
